theory Spec2Isabelle
  imports Complex_Main "HOL-Library.Word" "HOL-Library.Sublist"
begin

text \<open>
  The speaker and the engine of the MiGPT example of open-xiaoai (\<open>speaker.ts\<close> and the
  engine that follows it in the same source file): the text sanitizer in its two copies,
  the bridge client \<open>runShell\<close>, the device probe, \<open>getDevice\<close>, \<open>play\<close> and the event
  handler \<open>onEvent\<close>. Strings, values and \<open>JSON.parse\<close> of the language are modelled
  first, the program second, and the properties of the specification last.
\<close>

section \<open>JavaScript strings\<close>

text \<open>
  A JavaScript string is a sequence of 16-bit code units; \<open>text.length\<close> counts them and
  a regular expression without the \<open>u\<close> flag matches them one by one. The literals of the
  program are ASCII apart from the default greeting, so they are written as HOL strings
  and converted by \<open>js\<close>.
\<close>

type_synonym jsstring = "16 word list"

definition js :: "string \<Rightarrow> jsstring" where
  "js s = map of_char s"

definition is_space :: "16 word \<Rightarrow> bool" where
  \<comment> \<open>The class \<open>\s\<close> of a regular expression, which is also what \<open>trim\<close> strips:
      WhiteSpace and LineTerminator of ECMAScript.\<close>
  "is_space c \<longleftrightarrow>
     c \<in> {0x09, 0x0A, 0x0B, 0x0C, 0x0D, 0x20, 0xA0, 0x1680, 0x2028, 0x2029, 0x202F,
          0x205F, 0x3000, 0xFEFF}
     \<or> (0x2000 \<le> c \<and> c \<le> 0x200A)"

fun str_includes :: "jsstring \<Rightarrow> jsstring \<Rightarrow> bool" where
  \<comment> \<open>\<open>s.includes(pat)\<close> of a string: \<open>pat\<close> occurs in \<open>s\<close>.\<close>
  "str_includes [] pat \<longleftrightarrow> pat = []"
| "str_includes (c # cs) pat \<longleftrightarrow> prefix pat (c # cs) \<or> str_includes cs pat"

section \<open>Global replacement by the empty string\<close>

text \<open>
  \<open>s.replace(/re/g, "")\<close> scans \<open>s\<close> from the left. At each position the expression is
  tried; where it matches, the matched units are dropped and the scan goes on behind the
  match; where it does not (or matches nothing), the unit is kept. None of the expressions
  of the program looks behind the position, so an expression is given by the length of
  its match at the start of the remaining text.
\<close>

fun replace_global :: "(jsstring \<Rightarrow> nat option) \<Rightarrow> jsstring \<Rightarrow> jsstring" where
  "replace_global m [] = []"
| "replace_global m (c # cs) =
     (case m (c # cs) of
        Some (Suc n) \<Rightarrow> replace_global m (drop n cs)
      | _ \<Rightarrow> c # replace_global m cs)"

definition think_open :: jsstring where
  "think_open = js ''<think>''"

definition think_close :: jsstring where
  "think_close = js ''</think>''"

definition re_tag :: "jsstring \<Rightarrow> nat option" where
  \<comment> \<open>\<open>/<think>|<\/think>/\<close>\<close>
  "re_tag s =
     (if prefix think_open s then Some (length think_open)
      else if prefix think_close s then Some (length think_close)
      else None)"

fun lazy_until :: "jsstring \<Rightarrow> jsstring \<Rightarrow> nat option" where
  \<comment> \<open>\<open>[\s\S]*?pat\<close>: the units matched, up to the end of the first \<open>pat\<close>.\<close>
  "lazy_until pat [] = (if pat = [] then Some 0 else None)"
| "lazy_until pat (c # cs) =
     (if prefix pat (c # cs) then Some (length pat)
      else map_option Suc (lazy_until pat cs))"

definition re_block :: "jsstring \<Rightarrow> nat option" where
  \<comment> \<open>\<open>/<think>[\s\S]*?<\/think>/\<close>\<close>
  "re_block s =
     (if prefix think_open s
      then map_option (\<lambda>k. length think_open + k)
             (lazy_until think_close (drop (length think_open) s))
      else None)"

text \<open>
  The expression \<open>/<think>\s*\n([\s\S]*?)\n\s*<\/think>/\<close> of the engine's copy backtracks.
  Its tail \<open>\n\s*<\/think>\<close> has one way to match at a position: a line feed, the whole
  run of white space behind it, and the closing tag. The lazy group in front of the tail
  takes the first position where the tail matches. The greedy \<open>\s*\<close> in front of the first
  \<open>\n\<close> is tried with the whole run of white space first and then with one unit less at
  a time, and the first length for which the rest matches is taken.
\<close>

definition nl_close_at :: "jsstring \<Rightarrow> nat option" where
  \<comment> \<open>\<open>\n\s*<\/think>\<close> at the start of the text.\<close>
  "nl_close_at s =
     (case s of
        [] \<Rightarrow> None
      | c # cs \<Rightarrow>
          if c = 0x0A \<and> prefix think_close (dropWhile is_space cs)
          then Some (1 + length (takeWhile is_space cs) + length think_close)
          else None)"

fun lazy_nl_close :: "jsstring \<Rightarrow> nat option" where
  \<comment> \<open>\<open>([\s\S]*?)\n\s*<\/think>\<close>\<close>
  "lazy_nl_close [] = None"
| "lazy_nl_close (c # cs) =
     (case nl_close_at (c # cs) of
        Some k \<Rightarrow> Some k
      | None \<Rightarrow> map_option Suc (lazy_nl_close cs))"

definition nl_then_rest :: "nat \<Rightarrow> jsstring \<Rightarrow> nat option" where
  \<comment> \<open>\<open>\s*\<close> has taken \<open>k\<close> units: \<open>\n([\s\S]*?)\n\s*<\/think>\<close> behind them.\<close>
  "nl_then_rest k r =
     (if k < length r \<and> r ! k = 0x0A
      then map_option (\<lambda>e. k + 1 + e) (lazy_nl_close (drop (Suc k) r))
      else None)"

primrec greedy_space :: "nat \<Rightarrow> jsstring \<Rightarrow> nat option" where
  \<comment> \<open>\<open>\s*\<close> tried with \<open>k\<close>, \<open>k - 1\<close>, ..., \<open>0\<close> units.\<close>
  "greedy_space 0 r = nl_then_rest 0 r"
| "greedy_space (Suc k) r =
     (case nl_then_rest (Suc k) r of
        Some e \<Rightarrow> Some e
      | None \<Rightarrow> greedy_space k r)"

definition re_block_nl :: "jsstring \<Rightarrow> nat option" where
  \<comment> \<open>\<open>/<think>\s*\n([\s\S]*?)\n\s*<\/think>/\<close>\<close>
  "re_block_nl s =
     (if prefix think_open s
      then (let r = drop (length think_open) s
            in map_option (\<lambda>e. length think_open + e)
                 (greedy_space (length (takeWhile is_space r)) r))
      else None)"

section \<open>The text sanitizer\<close>

text \<open>
  \<open>removeThinkingTags\<close> of \<open>speaker.ts\<close>: a falsy text (the empty string) is returned as
  it is; otherwise the single tags are removed first and the blocks second.
\<close>

definition removeThinkingTags :: "jsstring \<Rightarrow> jsstring" where
  "removeThinkingTags text =
     (if text = [] then text
      else (let result = replace_global re_tag text;
                result = replace_global re_block result
            in result))"

text \<open>
  \<open>removeThinkingTags\<close> of the engine: the single tags, the blocks on lines of their
  own, the blocks.
\<close>

definition removeThinkingTags_engine :: "jsstring \<Rightarrow> jsstring" where
  "removeThinkingTags_engine text =
     (let result = replace_global re_tag text;
          result = replace_global re_block_nl result;
          result = replace_global re_block result
      in result)"

section \<open>String methods\<close>

definition trim :: "jsstring \<Rightarrow> jsstring" where
  \<comment> \<open>\<open>s.trim()\<close>\<close>
  "trim s = rev (dropWhile is_space (rev (dropWhile is_space s)))"

fun split_on :: "16 word \<Rightarrow> jsstring \<Rightarrow> jsstring \<Rightarrow> jsstring list" where
  \<comment> \<open>\<open>s.split(sep)\<close> for a separator of one unit; \<open>piece\<close> is the piece being read,
      reversed. The result is never empty: the empty string gives one empty piece.\<close>
  "split_on sep piece [] = [rev piece]"
| "split_on sep piece (c # cs) =
     (if c = sep then rev piece # split_on sep [] cs
      else split_on sep (c # piece) cs)"

definition lower_unit :: "16 word \<Rightarrow> 16 word" where
  "lower_unit c = (if 0x41 \<le> c \<and> c \<le> 0x5A then c + 0x20 else c)"

definition toLowerCase :: "jsstring \<Rightarrow> jsstring" where
  \<comment> \<open>\<open>s.toLowerCase()\<close> on the ASCII letters; a unit beyond ASCII is kept as it is. The
      only units beyond ASCII whose lower case has an ASCII letter are U+0130 (to \<open>i\<close> and
      U+0307) and U+212A (to \<open>k\<close>), and neither yields an occurrence of \<open>amlogic\<close>, the
      one text searched for in a lowered string.\<close>
  "toLowerCase s = map lower_unit s"

section \<open>JavaScript values\<close>

text \<open>
  The values that \<open>JSON.parse\<close> returns, and \<open>undefined\<close>. \<open>JNum q\<close> is the number that
  a literal of the exact value \<open>q\<close> denotes. An object keeps its members in the order of
  their first insertion, one per key.
\<close>

datatype jsval =
    JUndefined
  | JNull
  | JBool bool
  | JNum rat
  | JStr jsstring
  | JArr "jsval list"
  | JObj "(jsstring \<times> jsval) list"

datatype error = SyntaxError | TypeError | Rejected

definition nullish :: "jsval \<Rightarrow> bool" where
  "nullish v \<longleftrightarrow> v = JUndefined \<or> v = JNull"

definition num_is_zero :: "rat \<Rightarrow> bool" where
  \<comment> \<open>The literal is read as the nearest double, ties to even: it is \<open>0\<close> or \<open>-0\<close> when
      its value is at most half the least positive double, \<open>2^-1074\<close>.\<close>
  "num_is_zero q \<longleftrightarrow> \<bar>q\<bar> \<le> 1 / 2 ^ 1075"

definition truthy :: "jsval \<Rightarrow> bool" where
  "truthy v =
     (case v of
        JUndefined \<Rightarrow> False
      | JNull \<Rightarrow> False
      | JBool b \<Rightarrow> b
      | JNum q \<Rightarrow> \<not> num_is_zero q
      | JStr s \<Rightarrow> s \<noteq> []
      | JArr xs \<Rightarrow> True
      | JObj kvs \<Rightarrow> True)"

definition is_zero :: "jsval \<Rightarrow> bool" where
  \<comment> \<open>\<open>v === 0\<close>\<close>
  "is_zero v = (case v of JNum q \<Rightarrow> num_is_zero q | _ \<Rightarrow> False)"

definition prop_of :: "jsval \<Rightarrow> jsstring \<Rightarrow> jsval" where
  \<comment> \<open>\<open>v.k\<close> for a value that is neither \<open>undefined\<close> nor \<open>null\<close>, and a name \<open>k\<close> that no
      built-in prototype defines (as all names that the program reads): the member of an
      object, \<open>undefined\<close> where there is none and on every other value.\<close>
  "prop_of v k =
     (case v of
        JObj kvs \<Rightarrow> (case map_of kvs k of Some x \<Rightarrow> x | None \<Rightarrow> JUndefined)
      | _ \<Rightarrow> JUndefined)"

definition get_prop :: "jsval \<Rightarrow> jsstring \<Rightarrow> error + jsval" where
  \<comment> \<open>\<open>v.k\<close>: reading a property of \<open>undefined\<close> or \<open>null\<close> throws.\<close>
  "get_prop v k = (if nullish v then Inl TypeError else Inr (prop_of v k))"

definition opt_prop :: "jsval \<Rightarrow> jsstring \<Rightarrow> jsval" where
  \<comment> \<open>\<open>v?.k\<close>\<close>
  "opt_prop v k = (if nullish v then JUndefined else prop_of v k)"

definition opt_first :: "jsval \<Rightarrow> jsval" where
  \<comment> \<open>\<open>v?.[0]\<close>: the first element of an array, the first unit of a string, the member
      \<open>0\<close> of an object.\<close>
  "opt_first v =
     (case v of
        JArr xs \<Rightarrow> (case xs of [] \<Rightarrow> JUndefined | x # _ \<Rightarrow> x)
      | JStr s \<Rightarrow> (case s of [] \<Rightarrow> JUndefined | c # _ \<Rightarrow> JStr [c])
      | JObj kvs \<Rightarrow> prop_of v (js ''0'')
      | _ \<Rightarrow> JUndefined)"

definition method_includes :: "jsval \<Rightarrow> jsstring \<Rightarrow> error + bool" where
  \<comment> \<open>\<open>v.includes(pat)\<close>: strings and arrays have the method; an array includes the
      string when one of its elements is that string. On every other value the call
      throws.\<close>
  "method_includes v pat =
     (case v of
        JStr s \<Rightarrow> Inr (str_includes s pat)
      | JArr xs \<Rightarrow> Inr (JStr pat \<in> set xs)
      | _ \<Rightarrow> Inl TypeError)"

definition try_catch :: "error + 'a \<Rightarrow> (error \<Rightarrow> error + 'a) \<Rightarrow> error + 'a" where
  "try_catch body handler = (case body of Inl e \<Rightarrow> handler e | Inr v \<Rightarrow> Inr v)"

section \<open>\<open>JSON.parse\<close>\<close>

text \<open>
  The text is cut into tokens and the tokens are read by a machine with a stack of the
  arrays and objects that are open. Every text that is not a JSON text is a
  \<open>SyntaxError\<close>.
\<close>

fun obj_put :: "jsstring \<Rightarrow> jsval \<Rightarrow> (jsstring \<times> jsval) list \<Rightarrow> (jsstring \<times> jsval) list" where
  \<comment> \<open>A member written twice keeps its place and takes the later value.\<close>
  "obj_put k v [] = [(k, v)]"
| "obj_put k v ((k', v') # kvs) =
     (if k' = k then (k, v) # kvs else (k', v') # obj_put k v kvs)"

datatype token =
    TLBrace | TRBrace | TLBrack | TRBrack | TColon | TComma
  | TString jsstring | TNumber rat | TTrue | TFalse | TNull

definition is_digit :: "16 word \<Rightarrow> bool" where
  "is_digit c \<longleftrightarrow> 0x30 \<le> c \<and> c \<le> 0x39"

definition hex_val :: "16 word \<Rightarrow> nat option" where
  "hex_val c =
     (if 0x30 \<le> c \<and> c \<le> 0x39 then Some (unat c - 0x30)
      else if 0x41 \<le> c \<and> c \<le> 0x46 then Some (unat c - 0x37)
      else if 0x61 \<le> c \<and> c \<le> 0x66 then Some (unat c - 0x57)
      else None)"

definition hex4 :: "16 word \<Rightarrow> 16 word \<Rightarrow> 16 word \<Rightarrow> 16 word \<Rightarrow> 16 word option" where
  "hex4 h1 h2 h3 h4 =
     (case hex_val h1 of None \<Rightarrow> None | Some a \<Rightarrow>
      case hex_val h2 of None \<Rightarrow> None | Some b \<Rightarrow>
      case hex_val h3 of None \<Rightarrow> None | Some c \<Rightarrow>
      case hex_val h4 of None \<Rightarrow> None | Some d \<Rightarrow>
        Some (of_nat (((a * 16 + b) * 16 + c) * 16 + d)))"

definition escape_unit :: "16 word \<Rightarrow> 16 word option" where
  \<comment> \<open>The unit that an escape of two units stands for: quote, backslash, slash,
      \<open>b\<close>, \<open>f\<close>, \<open>n\<close>, \<open>r\<close>, \<open>t\<close>.\<close>
  "escape_unit e =
     (if e = 0x22 \<or> e = 0x5C \<or> e = 0x2F then Some e
      else if e = 0x62 then Some 0x08
      else if e = 0x66 then Some 0x0C
      else if e = 0x6E then Some 0x0A
      else if e = 0x72 then Some 0x0D
      else if e = 0x74 then Some 0x09
      else None)"

fun lex_string :: "jsstring \<Rightarrow> jsstring \<Rightarrow> (jsstring \<times> jsstring) option" where
  \<comment> \<open>Behind the opening quote: the string read so far (reversed) and the text; the
      result is the string and the text behind the closing quote.\<close>
  "lex_string acc [] = None"
| "lex_string acc (c # cs) =
     (if c = 0x22 then Some (rev acc, cs)
      else if c = 0x5C then
        (case cs of
           [] \<Rightarrow> None
         | e # cs1 \<Rightarrow>
             if e = 0x75 then
               (case cs1 of
                  h1 # h2 # h3 # h4 # cs2 \<Rightarrow>
                    (case hex4 h1 h2 h3 h4 of
                       Some u \<Rightarrow> lex_string (u # acc) cs2
                     | None \<Rightarrow> None)
                | _ \<Rightarrow> None)
             else
               (case escape_unit e of
                  Some u \<Rightarrow> lex_string (u # acc) cs1
                | None \<Rightarrow> None))
      else if c < 0x20 then None
      else lex_string (c # acc) cs)"

definition digits_val :: "jsstring \<Rightarrow> nat" where
  "digits_val ds = foldl (\<lambda>a d. 10 * a + (unat d - 0x30)) 0 ds"

definition lex_sign :: "16 word set \<Rightarrow> jsstring \<Rightarrow> bool \<times> jsstring" where
  \<comment> \<open>An optional sign out of \<open>signs\<close>; the flag tells a minus.\<close>
  "lex_sign signs s =
     (case s of
        [] \<Rightarrow> (False, s)
      | c # cs \<Rightarrow> if c \<in> signs then (c = 0x2D, cs) else (False, s))"

definition lex_int :: "jsstring \<Rightarrow> jsstring" where
  \<comment> \<open>The integer part: a single \<open>0\<close>, or digits that do not start with \<open>0\<close>.\<close>
  "lex_int s =
     (case s of
        [] \<Rightarrow> []
      | c # cs \<Rightarrow> if c = 0x30 then [c] else takeWhile is_digit s)"

definition lex_fraction :: "jsstring \<Rightarrow> (rat \<times> jsstring) option" where
  "lex_fraction s =
     (case s of
        [] \<Rightarrow> Some (0, s)
      | c # cs \<Rightarrow>
          if c = 0x2E
          then (let ds = takeWhile is_digit cs
                in if ds = [] then None
                   else Some (of_nat (digits_val ds) / 10 ^ length ds, dropWhile is_digit cs))
          else Some (0, s))"

definition lex_exponent :: "jsstring \<Rightarrow> (rat \<times> jsstring) option" where
  "lex_exponent s =
     (case s of
        [] \<Rightarrow> Some (1, s)
      | c # cs \<Rightarrow>
          if c = 0x65 \<or> c = 0x45
          then (let (neg, cs1) = lex_sign {0x2B, 0x2D} cs;
                    ds = takeWhile is_digit cs1
                in if ds = [] then None
                   else Some (if neg then 1 / 10 ^ digits_val ds else 10 ^ digits_val ds,
                              dropWhile is_digit cs1))
          else Some (1, s))"

definition lex_number :: "jsstring \<Rightarrow> (rat \<times> jsstring) option" where
  "lex_number s =
     (let (neg, s1) = lex_sign {0x2D} s;
          ip = lex_int s1
      in if ip = [] then None
         else
           (case lex_fraction (drop (length ip) s1) of
              None \<Rightarrow> None
            | Some (fr, s3) \<Rightarrow>
                (case lex_exponent s3 of
                   None \<Rightarrow> None
                 | Some (ex, s4) \<Rightarrow>
                     Some ((if neg then - 1 else 1) * (of_nat (digits_val ip) + fr) * ex, s4))))"

text \<open>A string and a number leave less text than they were given.\<close>

lemma lex_string_shorter: "lex_string acc s = Some (t, r) \<Longrightarrow> length r < length s"
proof (induction acc s rule: lex_string.induct)
  case (1 acc)
  then show ?case by simp
next
  case (2 acc c cs)
  show ?case
  proof (cases "c = 0x22")
    case True
    with "2.prems" show ?thesis by simp
  next
    case quote: False
    show ?thesis
    proof (cases "c = 0x5C")
      case False
      with quote "2.prems" have "\<not> c < 0x20" and "lex_string (c # acc) cs = Some (t, r)"
        by (auto split: if_splits)
      with quote False "2.IH"(3) have "length r < length cs" by blast
      then show ?thesis by simp
    next
      case True
      with quote "2.prems" obtain e cs1 where cs: "cs = e # cs1"
        by (cases cs) auto
      show ?thesis
      proof (cases "e = 0x75")
        case False
        with quote True cs "2.prems" obtain u
          where u: "escape_unit e = Some u" "lex_string (u # acc) cs1 = Some (t, r)"
          by (auto split: option.splits)
        with quote True cs False "2.IH"(2) have "length r < length cs1" by blast
        with cs show ?thesis by simp
      next
        case uni: True
        with quote True cs "2.prems" obtain h1 h2 h3 h4 cs2 u
          where h: "cs1 = h1 # h2 # h3 # h4 # cs2" "hex4 h1 h2 h3 h4 = Some u"
            "lex_string (u # acc) cs2 = Some (t, r)"
          by (auto split: list.splits option.splits)
        with quote True cs uni "2.IH"(1) have "length r < length cs2" by blast
        with cs h show ?thesis by simp
      qed
    qed
  qed
qed

lemma lex_sign_le: "lex_sign S s = (b, r) \<Longrightarrow> length r \<le> length s"
  by (auto simp: lex_sign_def split: list.splits if_splits)

lemma lex_fraction_le: "lex_fraction s = Some (q, r) \<Longrightarrow> length r \<le> length s"
  by (auto simp: lex_fraction_def Let_def split: list.splits if_splits
      intro: le_SucI length_dropWhile_le)

lemma lex_exponent_le:
  assumes "lex_exponent s = Some (q, r)"
  shows "length r \<le> length s"
proof (cases s)
  case Nil
  with assms show ?thesis by (simp add: lex_exponent_def)
next
  case (Cons c cs)
  show ?thesis
  proof (cases "c = 0x65 \<or> c = 0x45")
    case False
    with assms Cons show ?thesis by (simp add: lex_exponent_def)
  next
    case True
    obtain neg cs1 where sg: "lex_sign {0x2B, 0x2D} cs = (neg, cs1)"
      by (cases "lex_sign {0x2B, 0x2D} cs")
    from assms Cons True sg have "r = dropWhile is_digit cs1"
      by (auto simp: lex_exponent_def Let_def split: if_splits)
    moreover have "length (dropWhile is_digit cs1) \<le> length cs1"
      by (rule length_dropWhile_le)
    moreover have "length cs1 \<le> length cs"
      using sg by (rule lex_sign_le)
    ultimately show ?thesis using Cons by simp
  qed
qed

lemma lex_int_shorter:
  "lex_int s \<noteq> [] \<Longrightarrow> length (drop (length (lex_int s)) s) < length s"
  by (cases s) (auto simp: lex_int_def)

lemma lex_number_shorter:
  assumes "lex_number s = Some (q, r)"
  shows "length r < length s"
proof -
  obtain neg s1 where sg: "lex_sign {0x2D} s = (neg, s1)"
    by (cases "lex_sign {0x2D} s")
  from assms sg have ip: "lex_int s1 \<noteq> []"
    by (auto simp: lex_number_def Let_def split: if_splits)
  from assms sg ip obtain fr s3
    where fr: "lex_fraction (drop (length (lex_int s1)) s1) = Some (fr, s3)"
    by (auto simp: lex_number_def Let_def split: option.splits)
  from assms sg ip fr obtain ex where ex: "lex_exponent s3 = Some (ex, r)"
    by (auto simp: lex_number_def Let_def split: option.splits)
  have "length r \<le> length s3" using ex by (rule lex_exponent_le)
  also have "\<dots> \<le> length (drop (length (lex_int s1)) s1)" using fr by (rule lex_fraction_le)
  also have "\<dots> < length s1" using ip by (rule lex_int_shorter)
  also have "\<dots> \<le> length s" using sg by (rule lex_sign_le)
  finally show ?thesis .
qed

text \<open>
  The tokens of a text. White space between tokens is tab, line feed, carriage return and
  space.
\<close>

function tokenize :: "jsstring \<Rightarrow> token list option" where
  "tokenize [] = Some []"
| "tokenize (c # cs) =
     (if c \<in> {0x20, 0x09, 0x0A, 0x0D} then tokenize cs
      else if c = 0x7B then map_option ((#) TLBrace) (tokenize cs)
      else if c = 0x7D then map_option ((#) TRBrace) (tokenize cs)
      else if c = 0x5B then map_option ((#) TLBrack) (tokenize cs)
      else if c = 0x5D then map_option ((#) TRBrack) (tokenize cs)
      else if c = 0x3A then map_option ((#) TColon) (tokenize cs)
      else if c = 0x2C then map_option ((#) TComma) (tokenize cs)
      else if c = 0x22 then
        (case lex_string [] cs of
           None \<Rightarrow> None
         | Some (s, rest) \<Rightarrow> map_option ((#) (TString s)) (tokenize rest))
      else if c = 0x2D \<or> is_digit c then
        (case lex_number (c # cs) of
           None \<Rightarrow> None
         | Some (q, rest) \<Rightarrow> map_option ((#) (TNumber q)) (tokenize rest))
      else if prefix (js ''true'') (c # cs) then map_option ((#) TTrue) (tokenize (drop 3 cs))
      else if prefix (js ''false'') (c # cs) then map_option ((#) TFalse) (tokenize (drop 4 cs))
      else if prefix (js ''null'') (c # cs) then map_option ((#) TNull) (tokenize (drop 3 cs))
      else None)"
  by pat_completeness auto
termination
  by (relation "measure length") (auto dest: lex_string_shorter lex_number_shorter)

text \<open>
  The machine. A frame is an open array with its elements so far (the last one first), an
  open object with its members so far, or an open object whose next key has been read.
  \<open>expect\<close> tells what may come next; \<open>deliver\<close> hands a finished value to the
  innermost open frame, or ends the text.
\<close>

datatype frame =
    FArr "jsval list"
  | FObj "(jsstring \<times> jsval) list"
  | FMem "(jsstring \<times> jsval) list" jsstring

datatype expect = EValue | EFirstElem | EFirstKey | EKey | EColon | ENext | EDone jsval

definition deliver :: "jsval \<Rightarrow> frame list \<Rightarrow> (expect \<times> frame list) option" where
  "deliver v st =
     (case st of
        [] \<Rightarrow> Some (EDone v, [])
      | FArr xs # st' \<Rightarrow> Some (ENext, FArr (v # xs) # st')
      | FMem kvs k # st' \<Rightarrow> Some (ENext, FObj (obj_put k v kvs) # st')
      | FObj kvs # st' \<Rightarrow> None)"

definition start_value :: "frame list \<Rightarrow> token \<Rightarrow> (expect \<times> frame list) option" where
  "start_value st t =
     (case t of
        TString s \<Rightarrow> deliver (JStr s) st
      | TNumber q \<Rightarrow> deliver (JNum q) st
      | TTrue \<Rightarrow> deliver (JBool True) st
      | TFalse \<Rightarrow> deliver (JBool False) st
      | TNull \<Rightarrow> deliver JNull st
      | TLBrack \<Rightarrow> Some (EFirstElem, FArr [] # st)
      | TLBrace \<Rightarrow> Some (EFirstKey, FObj [] # st)
      | _ \<Rightarrow> None)"

definition parse_step :: "expect \<Rightarrow> frame list \<Rightarrow> token \<Rightarrow> (expect \<times> frame list) option" where
  "parse_step e st t =
     (case e of
        EValue \<Rightarrow> start_value st t
      | EFirstElem \<Rightarrow>
          (case t of
             TRBrack \<Rightarrow> (case st of FArr xs # st' \<Rightarrow> deliver (JArr (rev xs)) st' | _ \<Rightarrow> None)
           | _ \<Rightarrow> start_value st t)
      | EFirstKey \<Rightarrow>
          (case st of
             FObj kvs # st' \<Rightarrow>
               (case t of
                  TRBrace \<Rightarrow> deliver (JObj kvs) st'
                | TString k \<Rightarrow> Some (EColon, FMem kvs k # st')
                | _ \<Rightarrow> None)
           | _ \<Rightarrow> None)
      | EKey \<Rightarrow>
          (case st of
             FObj kvs # st' \<Rightarrow>
               (case t of
                  TString k \<Rightarrow> Some (EColon, FMem kvs k # st')
                | _ \<Rightarrow> None)
           | _ \<Rightarrow> None)
      | EColon \<Rightarrow> (case t of TColon \<Rightarrow> Some (EValue, st) | _ \<Rightarrow> None)
      | ENext \<Rightarrow>
          (case st of
             FArr xs # st' \<Rightarrow>
               (case t of
                  TComma \<Rightarrow> Some (EValue, st)
                | TRBrack \<Rightarrow> deliver (JArr (rev xs)) st'
                | _ \<Rightarrow> None)
           | FObj kvs # st' \<Rightarrow>
               (case t of
                  TComma \<Rightarrow> Some (EKey, st)
                | TRBrace \<Rightarrow> deliver (JObj kvs) st'
                | _ \<Rightarrow> None)
           | _ \<Rightarrow> None)
      | EDone v \<Rightarrow> None)"

fun parse_tokens :: "expect \<Rightarrow> frame list \<Rightarrow> token list \<Rightarrow> jsval option" where
  "parse_tokens e st [] = (case e of EDone v \<Rightarrow> Some v | _ \<Rightarrow> None)"
| "parse_tokens e st (t # ts) =
     (case parse_step e st t of
        None \<Rightarrow> None
      | Some (e', st') \<Rightarrow> parse_tokens e' st' ts)"

definition JSON_parse :: "jsstring \<Rightarrow> error + jsval" where
  "JSON_parse text =
     (case tokenize text of
        None \<Rightarrow> Inl SyntaxError
      | Some ts \<Rightarrow>
          (case parse_tokens EValue [] ts of
             None \<Rightarrow> Inl SyntaxError
           | Some v \<Rightarrow> Inr v))"


section \<open>The native bridge and the state of the program\<close>

text \<open>
  \<open>RustServer\<close>, the native bridge, is not among the sources: it is a parameter of the
  model. \<open>RustServer.run_shell(script, timeout)\<close> returns a promise. The promise is
  rejected (a call that throws at once is caught by \<open>runShell\<close> in the same way), or it
  resolves to the output of the bridge, a JSON string, or to nothing; a command that ran
  out of time reaches the program in one of these ways. What the bridge answers is a
  function of the calls made before, the script and the timeout, and every statement
  below holds for every such function.
\<close>

datatype bridge_reply = Rejects | Resolves "jsstring option"

type_synonym call = "jsstring \<times> rat"

type_synonym bridge = "call list \<Rightarrow> jsstring \<Rightarrow> rat \<Rightarrow> bridge_reply"

datatype playback = Idle | Playing | Paused

record message =
  msg_text :: jsval
  msg_id :: jsstring
  msg_sender :: jsstring
  msg_timestamp :: int

text \<open>
  \<open>status\<close> is the field of the one \<open>SpeakerManager\<close>; \<open>calls\<close> are the commands handed to
  the bridge, \<open>forwarded\<close> the messages handed to \<open>onMessage\<close> of the engine and \<open>console\<close>
  the keywords written to the console, each in the order of time.
\<close>

record world =
  status :: playback
  calls :: "call list"
  forwarded :: "message list"
  console :: "jsval list"

definition await :: "bridge_reply \<Rightarrow> error + jsstring option" where
  \<comment> \<open>Awaiting a rejected promise throws.\<close>
  "await r = (case r of Rejects \<Rightarrow> Inl Rejected | Resolves res \<Rightarrow> Inr res)"

section \<open>\<open>SpeakerManager\<close>\<close>

definition runShell :: "bridge \<Rightarrow> jsstring \<Rightarrow> rat option \<Rightarrow> world \<Rightarrow> (error + jsval) \<times> world" where
  \<comment> \<open>\<open>options\<close> is the timeout of the options, where one is given. A function that ends
      without \<open>return\<close> returns \<open>undefined\<close>.\<close>
  "runShell bridge script options w =
     (let timeout = (case options of None \<Rightarrow> 10 * 1000 | Some t \<Rightarrow> t)
      in (try_catch
            (case await (bridge (calls w) script timeout) of
               Inl e \<Rightarrow> Inl e
             | Inr res \<Rightarrow>
                 (case res of
                    Some r \<Rightarrow> if r \<noteq> [] then JSON_parse r else Inr JUndefined
                  | None \<Rightarrow> Inr JUndefined))
            (\<lambda>_. Inr JUndefined),
          w\<lparr>calls := calls w @ [(script, timeout)]\<rparr>))"

definition quote :: jsstring where
  "quote = [0x27]"

definition probe_script :: jsstring where
  "probe_script = js ''cat /proc/cpuinfo | grep Hardware | awk '' @ quote @ js ''{print $3}'' @ quote"

definition isNewDevice :: "bridge \<Rightarrow> world \<Rightarrow> (error + jsval) \<times> world" where
  \<comment> \<open>\<open>res?.stdout?.toLowerCase()?.includes("amlogic")\<close>: only a string has the method
      \<open>toLowerCase\<close>.\<close>
  "isNewDevice bridge w =
     (case runShell bridge probe_script None w of
        (Inl e, w') \<Rightarrow> (Inl e, w')
      | (Inr res, w') \<Rightarrow>
          (let stdout = opt_prop res (js ''stdout'')
           in if nullish stdout then Inr JUndefined
              else (case stdout of
                      JStr s \<Rightarrow> Inr (JBool (str_includes (toLowerCase s) (js ''amlogic'')))
                    | _ \<Rightarrow> Inl TypeError),
           w'))"

record device =
  model :: jsstring
  sn :: jsstring

definition elem_or :: "jsstring list option \<Rightarrow> nat \<Rightarrow> jsstring \<Rightarrow> jsstring" where
  \<comment> \<open>\<open>info?.[i] ?? d\<close> for an array of strings or \<open>undefined\<close>.\<close>
  "elem_or info i d =
     (case info of
        None \<Rightarrow> d
      | Some xs \<Rightarrow> if i < length xs then xs ! i else d)"

definition getDevice :: "bridge \<Rightarrow> world \<Rightarrow> (error + device) \<times> world" where
  \<comment> \<open>\<open>res?.stdout.trim().split(" ")\<close>: only a string has the method \<open>trim\<close>.\<close>
  "getDevice bridge w =
     (case runShell bridge (js ''echo $(micocfg_model) $(micocfg_sn)'') None w of
        (Inl e, w') \<Rightarrow> (Inl e, w')
      | (Inr res, w') \<Rightarrow>
          (case (if nullish res then Inr None
                 else (case prop_of res (js ''stdout'') of
                         JStr s \<Rightarrow> Inr (Some (split_on 0x20 [] (trim s)))
                       | _ \<Rightarrow> Inl TypeError)) of
             Inl e \<Rightarrow> Inl e
           | Inr info \<Rightarrow>
               Inr \<lparr>model = elem_or info 0 (js ''unknown''),
                    sn = elem_or info 1 (js ''unknown'')\<rparr>,
           w'))"

record play_options =
  opt_text :: "jsstring option"
  opt_url :: "jsstring option"
  opt_blocking :: "bool option"

definition greeting :: jsstring where
  \<comment> \<open>The two units of the default text, U+4F60 and U+597D.\<close>
  "greeting = [0x4F60, 0x597D]"

definition nonempty :: "jsstring option \<Rightarrow> jsstring option" where
  \<comment> \<open>A string option of the caller where it is truthy: given and not empty.\<close>
  "nonempty x = (case x of None \<Rightarrow> None | Some s \<Rightarrow> if s \<noteq> [] then Some s else None)"

definition play_timeout :: "(rat \<Rightarrow> rat) \<Rightarrow> play_options \<Rightarrow> rat" where
  \<comment> \<open>In milliseconds. The program computes \<open>Math.max(20, text.length * 0.15) * 1000\<close> in
      double arithmetic: the literal \<open>0.15\<close>, the product with the length and the product
      with \<open>1000\<close> are each rounded to a double. The rounding is a parameter: \<open>to_double q\<close>
      is the double that the exact value \<open>q\<close> is rounded to. The length, \<open>20\<close>, \<open>20 * 1000\<close>
      and \<open>10 * 1000\<close> are doubles as they are, and so is the greater of two doubles.\<close>
  "play_timeout to_double options =
     (if opt_blocking options = Some True
      then (case nonempty (opt_text options) of
              Some t \<Rightarrow>
                to_double (max 20 (to_double (of_nat (length t) * to_double (15 / 100))) * 1000)
            | None \<Rightarrow> 20 * 1000)
      else 10 * 1000)"

definition play_script :: "(jsval \<Rightarrow> jsstring) \<Rightarrow> bool \<Rightarrow> play_options \<Rightarrow> jsstring" where
  \<comment> \<open>The command of \<open>play\<close> on a new device (\<open>new\<close>) and on an old one. \<open>jsonEncode\<close>, of
      the package \<open>@mi-gpt/utils\<close>, is a parameter: the text that the template inserts
      for \<open>jsonEncode(...)\<close>.\<close>
  "play_script jsonEncode new options =
     (let text = opt_text options;
          url = opt_url options;
          cleanText = (case nonempty text of
                         Some t \<Rightarrow> Some (removeThinkingTags t)
                       | None \<Rightarrow> text);
          speak = (case nonempty cleanText of Some t \<Rightarrow> t | None \<Rightarrow> greeting)
      in if new
         then (case nonempty url of
                 Some u \<Rightarrow>
                   js ''curl '' @ quote @ u @ quote
                   @ js '' | aplay -Dhw:0,0 -f S16_LE -c 1 -r 24000 -''
               | None \<Rightarrow> js ''/usr/sbin/tts_play.sh '' @ quote @ speak @ quote)
         else (case nonempty url of
                 Some u \<Rightarrow>
                   js ''ubus call mediaplayer player_play_url '' @ quote
                   @ jsonEncode (JObj [(js ''url'', JStr u), (js ''type'', JNum 1)])
                   @ quote
               | None \<Rightarrow>
                   js ''ubus call mibrain text_to_speech '' @ quote
                   @ jsonEncode (JObj [(js ''text'', JStr speak), (js ''save'', JNum 0)])
                   @ quote))"

definition code_ok :: jsstring where
  \<open>code_ok = js ''"code": 0''\<close>

definition play :: "bridge \<Rightarrow> (jsval \<Rightarrow> jsstring) \<Rightarrow> (rat \<Rightarrow> rat) \<Rightarrow> play_options \<Rightarrow> world \<Rightarrow> (error + bool) \<times> world" where
  \<comment> \<open>\<open>res?.exit_code === 0\<close> on a new device,
      \<open>res?.stdout.includes('"code": 0') ?? false\<close> on an old one.\<close>
  "play bridge jsonEncode to_double options w =
     (let timeout = play_timeout to_double options
      in case isNewDevice bridge w of
           (Inl e, w1) \<Rightarrow> (Inl e, w1)
         | (Inr newDevice, w1) \<Rightarrow>
             if truthy newDevice
             then (case runShell bridge (play_script jsonEncode True options) (Some timeout) w1 of
                     (Inl e, w2) \<Rightarrow> (Inl e, w2)
                   | (Inr res, w2) \<Rightarrow> (Inr (is_zero (opt_prop res (js ''exit_code''))), w2))
             else (case runShell bridge (play_script jsonEncode False options) (Some timeout) w1 of
                     (Inl e, w2) \<Rightarrow> (Inl e, w2)
                   | (Inr res, w2) \<Rightarrow>
                       (if nullish res then Inr False
                        else method_includes (prop_of res (js ''stdout'')) code_ok,
                        w2)))"

section \<open>\<open>OpenXiaoAIEngine\<close>\<close>

text \<open>
  \<open>jsonDecode\<close> is imported from the package \<open>@mi-gpt/utils\<close>, which is not among the
  sources: \<open>onEvent\<close> takes it as a parameter, a function that returns a value or throws.
  \<open>uuid\<close> and \<open>now\<close> are what \<open>randomUUID()\<close> and \<open>Date.now()\<close> return in this call.
  \<open>onMessage\<close> is the message handler that the engine inherits from \<open>MiGPTEngine\<close>; the
  model records the message that is handed to it.
\<close>

definition is_final_result :: "jsval \<Rightarrow> bool" where
  \<comment> \<open>The condition on the decoded line.\<close>
  "is_final_result line \<longleftrightarrow>
     opt_prop (opt_prop line (js ''header'')) (js ''namespace'') = JStr (js ''SpeechRecognizer'')
     \<and> opt_prop (opt_prop line (js ''header'')) (js ''name'') = JStr (js ''RecognizeResult'')
     \<and> truthy (opt_prop (opt_prop line (js ''payload'')) (js ''is_final''))
     \<and> truthy (opt_prop (opt_first (opt_prop (opt_prop line (js ''payload'')) (js ''results'')))
                 (js ''text''))"

definition result_text :: "jsval \<Rightarrow> jsval" where
  \<comment> \<open>\<open>line.payload.results[0].text\<close>, read where the condition holds.\<close>
  "result_text line =
     opt_prop (opt_first (opt_prop (opt_prop line (js ''payload'')) (js ''results''))) (js ''text'')"

definition onEvent :: "(jsval \<Rightarrow> error + jsval) \<Rightarrow> jsstring \<Rightarrow> int \<Rightarrow> jsstring \<Rightarrow> world \<Rightarrow> error + world" where
  "onEvent jsonDecode uuid now event w =
     (case JSON_parse event of
        Inl err \<Rightarrow> Inl err
      | Inr e \<Rightarrow>
          (case get_prop e (js ''event'') of
             Inl err \<Rightarrow> Inl err
           | Inr kind \<Rightarrow>
               if kind = JStr (js ''playing'')
               then (let d = prop_of e (js ''data'')
                     in Inr (w\<lparr>status :=
                                 if d = JStr (js ''Playing'') then Playing
                                 else if d = JStr (js ''Paused'') then Paused
                                 else Idle\<rparr>))
               else
                 (case (if kind = JStr (js ''instruction'')
                        then (case get_prop (prop_of e (js ''data'')) (js ''NewLine'') of
                                Inl err \<Rightarrow> Inl err
                              | Inr newLine \<Rightarrow> Inr (truthy newLine))
                        else Inr False) of
                    Inl err \<Rightarrow> Inl err
                  | Inr True \<Rightarrow>
                      (case jsonDecode (prop_of (prop_of e (js ''data'')) (js ''NewLine'')) of
                         Inl err \<Rightarrow> Inl err
                       | Inr line \<Rightarrow>
                           if is_final_result line
                           then Inr (w\<lparr>forwarded := forwarded w @
                                        [\<lparr>msg_text = result_text line, msg_id = uuid,
                                          msg_sender = js ''user'', msg_timestamp = now\<rparr>]\<rparr>)
                           else Inr w)
                  | Inr False \<Rightarrow>
                      if kind = JStr (js ''kws'')
                      then Inr (w\<lparr>console := console w @ [prop_of e (js ''data'')]\<rparr>)
                      else Inr w)))"

definition state_after :: "error + world \<Rightarrow> world \<Rightarrow> world" where
  \<comment> \<open>The state behind a call of \<open>onEvent\<close> that started in \<open>w\<close>. \<open>onEvent\<close> writes in the last
      step of a branch only (the status, the call of \<open>onMessage\<close>, the console), behind
      all that can throw (\<open>JSON.parse\<close>, reading \<open>e.event\<close> and \<open>e.data.NewLine\<close>, the
      decoder): a call that throws has written nothing.\<close>
  "state_after r w = (case r of Inl err \<Rightarrow> w | Inr w' \<Rightarrow> w')"

definition jsonDecode_parse :: "jsval \<Rightarrow> error + jsval" where
  \<comment> \<open>One decoder, to run \<open>onEvent\<close> on an event: a string is parsed as JSON, and what is
      not a string or not a JSON text is decoded to \<open>undefined\<close>.\<close>
  "jsonDecode_parse v =
     (case v of
        JStr s \<Rightarrow> try_catch (JSON_parse s) (\<lambda>_. Inr JUndefined)
      | _ \<Rightarrow> Inr JUndefined)"

section \<open>Inputs on which the program is run below\<close>

definition world0 :: world where
  "world0 = \<lparr>status = Idle, calls = [], forwarded = [], console = []\<rparr>"

definition world_paused :: world where
  "world_paused = \<lparr>status = Paused, calls = [], forwarded = [], console = []\<rparr>"

text \<open>A bridge that resolves to nothing, one that rejects, and one that answers a text.\<close>

definition bridge_silent :: bridge where
  "bridge_silent history script timeout = Resolves None"

definition bridge_rejecting :: bridge where
  "bridge_rejecting history script timeout = Rejects"

definition bridge_replying :: "jsstring \<Rightarrow> bridge" where
  "bridge_replying reply history script timeout = Resolves (Some reply)"

definition reply_hi :: jsstring where
  \<open>reply_hi = js ''{"stdout":"hi","stderr":"","exit_code":0}''\<close>

definition reply_amlogic :: jsstring where
  \<open>reply_amlogic = js ''{"stdout":"Amlogic","stderr":"","exit_code":0}''\<close>

definition reply_model :: jsstring where
  \<open>reply_model = js ''{"stdout":"model123 SN456","stderr":"","exit_code":0}''\<close>

definition reply_empty :: jsstring where
  \<open>reply_empty = js ''{"stdout":"","stderr":"","exit_code":0}''\<close>

definition reply_broken :: jsstring where
  \<open>reply_broken = js ''{"stdout":"hi",''\<close>

definition result_hi :: jsval where
  "result_hi = JObj [(js ''stdout'', JStr (js ''hi'')), (js ''stderr'', JStr []),
                     (js ''exit_code'', JNum 0)]"

definition jsonDecode_strict :: "jsval \<Rightarrow> error + jsval" where
  \<comment> \<open>Another decoder, one that throws on what is not a string and on what is not a
      JSON text.\<close>
  "jsonDecode_strict v = (case v of JStr s \<Rightarrow> JSON_parse s | _ \<Rightarrow> Inl TypeError)"

definition no_rounding :: "rat \<Rightarrow> rat" where
  \<comment> \<open>The options below do not block, so that \<open>play\<close> rounds nothing on them: this stands
      in for the rounding to doubles.\<close>
  "no_rounding q = q"

text \<open>Events.\<close>

definition event_playing :: jsstring where
  \<open>event_playing = js ''{"event":"playing","data":"Playing"}''\<close>

definition event_paused :: jsstring where
  \<open>event_paused = js ''{"event":"playing","data":"Paused"}''\<close>

definition event_stopped :: jsstring where
  \<open>event_stopped = js ''{"event":"playing","data":"Stopped"}''\<close>

definition event_no_data :: jsstring where
  \<open>event_no_data = js ''{"event":"instruction"}''\<close>

definition event_volume :: jsstring where
  \<open>event_volume = js ''{"event":"volume","data":5}''\<close>

definition event_empty_data :: jsstring where
  \<open>event_empty_data = js ''{"event":"instruction","data":{}}''\<close>

definition event_not_json :: jsstring where
  "event_not_json = js ''not json''"

definition json_quoted :: "jsstring \<Rightarrow> jsstring" where
  \<comment> \<open>The JSON string of a text in which only the quote needs an escape.\<close>
  "json_quoted s =
     [0x22] @ concat (map (\<lambda>c. if c = 0x22 then [0x5C, 0x22] else [c]) s) @ [0x22]"

definition line_text :: "bool \<Rightarrow> jsstring" where
  \<open>line_text final =
     js ''{"header":{"namespace":"SpeechRecognizer","name":"RecognizeResult"},''
     @ js ''"payload":{"is_final":'' @ (if final then js ''true'' else js ''false'')
     @ js '',"results":[{"text":"turn on the light"}]}}''\<close>

definition line_value :: "bool \<Rightarrow> jsval" where
  "line_value final =
     JObj [(js ''header'', JObj [(js ''namespace'', JStr (js ''SpeechRecognizer'')),
                                 (js ''name'', JStr (js ''RecognizeResult''))]),
           (js ''payload'',
            JObj [(js ''is_final'', JBool final),
                  (js ''results'', JArr [JObj [(js ''text'', JStr (js ''turn on the light''))]])])]"

definition event_instruction :: "bool \<Rightarrow> jsstring" where
  \<comment> \<open>The instruction event whose \<open>NewLine\<close> is the text of a recognition result.\<close>
  \<open>event_instruction final =
     js ''{"event":"instruction","data":{"NewLine":'' @ json_quoted (line_text final) @ js ''}}''\<close>

text \<open>
  Options of \<open>play\<close> with a text that is all delimiters, and an encoder for the flat
  objects of strings and small numbers that \<open>play\<close> encodes.
\<close>

definition options_thinking :: play_options where
  "options_thinking =
     \<lparr>opt_text = Some (js ''<think></think>''), opt_url = None, opt_blocking = None\<rparr>"

definition encode_scalar :: "jsval \<Rightarrow> jsstring" where
  "encode_scalar v =
     (case v of
        JStr s \<Rightarrow> json_quoted s
      | JNum q \<Rightarrow> (if q = 0 then js ''0'' else if q = 1 then js ''1'' else js ''null'')
      | _ \<Rightarrow> js ''null'')"

definition encode_member :: "jsstring \<times> jsval \<Rightarrow> jsstring" where
  "encode_member kv = json_quoted (fst kv) @ js '':'' @ encode_scalar (snd kv)"

definition encode_flat :: "jsval \<Rightarrow> jsstring" where
  "encode_flat v =
     (case v of
        JObj kvs \<Rightarrow>
          (case kvs of
             [] \<Rightarrow> js ''{}''
           | kv # rest \<Rightarrow>
               js ''{'' @ encode_member kv @ concat (map (\<lambda>m. js '','' @ encode_member m) rest)
               @ js ''}'')
      | _ \<Rightarrow> encode_scalar v)"

definition greeting_payload :: jsstring where
  \<comment> \<open>The default greeting as the text of the old dialect's command.\<close>
  \<open>greeting_payload = js ''{"text":"'' @ greeting @ js ''","save":0}''\<close>

section \<open>Facts about the model\<close>

text \<open>The definitions that the simplifier unfolds to run \<open>JSON.parse\<close> on a text.\<close>

lemmas json_eval =
  JSON_parse_def js_def start_value_def parse_step_def deliver_def lex_number_def lex_sign_def
  lex_int_def lex_fraction_def lex_exponent_def digits_val_def is_digit_def hex4_def hex_val_def
  escape_unit_def

lemma JSON_parse_empty: "JSON_parse [] = Inl SyntaxError"
  by (simp add: JSON_parse_def)

lemma parse_reply_hi: "JSON_parse reply_hi = Inr result_hi"
  by (simp add: reply_hi_def result_hi_def json_eval)

lemma parse_reply_broken: "JSON_parse reply_broken = Inl SyntaxError"
  by (simp add: reply_broken_def json_eval)

lemma parse_reply_amlogic:
  "JSON_parse reply_amlogic =
     Inr (JObj [(js ''stdout'', JStr (js ''Amlogic'')), (js ''stderr'', JStr []),
                (js ''exit_code'', JNum 0)])"
  by (simp add: reply_amlogic_def json_eval)

lemma parse_reply_model:
  "JSON_parse reply_model =
     Inr (JObj [(js ''stdout'', JStr (js ''model123 SN456'')), (js ''stderr'', JStr []),
                (js ''exit_code'', JNum 0)])"
  by (simp add: reply_model_def json_eval)

lemma parse_reply_empty:
  "JSON_parse reply_empty =
     Inr (JObj [(js ''stdout'', JStr []), (js ''stderr'', JStr []), (js ''exit_code'', JNum 0)])"
  by (simp add: reply_empty_def json_eval)

lemma parse_event_playing:
  "JSON_parse event_playing =
     Inr (JObj [(js ''event'', JStr (js ''playing'')), (js ''data'', JStr (js ''Playing''))])"
  by (simp add: event_playing_def json_eval)

lemma parse_event_paused:
  "JSON_parse event_paused =
     Inr (JObj [(js ''event'', JStr (js ''playing'')), (js ''data'', JStr (js ''Paused''))])"
  by (simp add: event_paused_def json_eval)

lemma parse_event_stopped:
  "JSON_parse event_stopped =
     Inr (JObj [(js ''event'', JStr (js ''playing'')), (js ''data'', JStr (js ''Stopped''))])"
  by (simp add: event_stopped_def json_eval)

lemma parse_event_no_data:
  "JSON_parse event_no_data = Inr (JObj [(js ''event'', JStr (js ''instruction''))])"
  by (simp add: event_no_data_def json_eval)

lemma parse_not_json: "JSON_parse event_not_json = Inl SyntaxError"
  by (simp add: event_not_json_def json_eval)

lemma parse_event_volume:
  "JSON_parse event_volume = Inr (JObj [(js ''event'', JStr (js ''volume'')), (js ''data'', JNum 5)])"
  by (simp add: event_volume_def json_eval)

lemma parse_event_empty_data:
  "JSON_parse event_empty_data =
     Inr (JObj [(js ''event'', JStr (js ''instruction'')), (js ''data'', JObj [])])"
  by (simp add: event_empty_data_def json_eval)

lemma parse_line_text: "JSON_parse (line_text final) = Inr (line_value final)"
  by (cases final) (simp_all add: line_text_def line_value_def json_eval)

lemma parse_event_instruction:
  "JSON_parse (event_instruction final) =
     Inr (JObj [(js ''event'', JStr (js ''instruction'')),
                (js ''data'', JObj [(js ''NewLine'', JStr (line_text final))])])"
  by (cases final) (simp_all add: event_instruction_def json_quoted_def line_text_def json_eval)

text \<open>Reading properties.\<close>

lemma prop_of_defined: "prop_of v k \<noteq> JUndefined \<Longrightarrow> \<not> nullish v"
  by (cases v) (simp_all add: prop_of_def nullish_def)

lemma truthy_defined: "truthy v \<Longrightarrow> v \<noteq> JUndefined"
  by (auto simp: truthy_def)

lemma opt_prop_JStr: "prop_of v k = JStr s \<Longrightarrow> opt_prop v k = JStr s"
  by (cases v) (simp_all add: prop_of_def opt_prop_def nullish_def)

lemma opt_prop_via:
  "prop_of (prop_of v k) k' = x \<Longrightarrow> x \<noteq> JUndefined \<Longrightarrow> opt_prop (opt_prop v k) k' = x"
proof -
  assume a: "prop_of (prop_of v k) k' = x" and b: "x \<noteq> JUndefined"
  then have "prop_of (prop_of v k) k' \<noteq> JUndefined" by simp
  then have 1: "\<not> nullish (prop_of v k)" by (rule prop_of_defined)
  then have "prop_of v k \<noteq> JUndefined" by (auto simp: nullish_def)
  then have 2: "\<not> nullish v" by (rule prop_of_defined)
  from a 1 2 show ?thesis by (simp add: opt_prop_def)
qed

text \<open>What \<open>runShell\<close> and \<open>isNewDevice\<close> leave behind, and what they return.\<close>

lemma snd_runShell:
  "snd (runShell bridge script options w) =
     w\<lparr>calls := calls w @ [(script, case options of None \<Rightarrow> 10 * 1000 | Some t \<Rightarrow> t)]\<rparr>"
  by (simp add: runShell_def Let_def)

lemma runShell_bridge_silent: "fst (runShell bridge_silent script options w) = Inr JUndefined"
  by (simp add: runShell_def bridge_silent_def await_def try_catch_def)

lemma runShell_bridge_replying:
  "reply \<noteq> [] \<Longrightarrow> JSON_parse reply = Inr v \<Longrightarrow>
   fst (runShell (bridge_replying reply) script options w) = Inr v"
  by (simp add: runShell_def bridge_replying_def await_def try_catch_def)

lemma snd_isNewDevice:
  "snd (isNewDevice bridge w) = w\<lparr>calls := calls w @ [(probe_script, 10 * 1000)]\<rparr>"
  using snd_runShell [of bridge probe_script None w]
  by (cases "runShell bridge probe_script None w")
     (auto simp: isNewDevice_def split: sum.splits)

lemma fst_isNewDevice:
  "fst (runShell bridge probe_script None w) = Inr res \<Longrightarrow>
   fst (isNewDevice bridge w) =
     (let stdout = opt_prop res (js ''stdout'')
      in if nullish stdout then Inr JUndefined
         else (case stdout of
                 JStr s \<Rightarrow> Inr (JBool (str_includes (toLowerCase s) (js ''amlogic'')))
               | _ \<Rightarrow> Inl TypeError))"
  by (cases "runShell bridge probe_script None w") (auto simp: isNewDevice_def)

text \<open>The commands that \<open>play\<close> hands to the bridge: the probe, then the one for the dialect.\<close>

lemma play_calls:
  assumes "fst (isNewDevice bridge w) = Inr newDevice"
  shows "calls (snd (play bridge jsonEncode to_double options w)) =
           calls w @ [(probe_script, 10 * 1000),
                      (play_script jsonEncode (truthy newDevice) options,
                       play_timeout to_double options)]"
proof -
  let ?script = "play_script jsonEncode (truthy newDevice) options"
  let ?timeout = "play_timeout to_double options"
  obtain w1 where nd: "isNewDevice bridge w = (Inr newDevice, w1)"
    using assms by (cases "isNewDevice bridge w") simp
  with snd_isNewDevice [of bridge w]
  have w1: "w1 = w\<lparr>calls := calls w @ [(probe_script, 10 * 1000)]\<rparr>" by simp
  obtain r2 w2 where rs: "runShell bridge ?script (Some ?timeout) w1 = (r2, w2)"
    by (cases "runShell bridge ?script (Some ?timeout) w1")
  with snd_runShell [of bridge ?script "Some ?timeout" w1]
  have w2: "w2 = w1\<lparr>calls := calls w1 @ [(?script, ?timeout)]\<rparr>" by simp
  have "snd (play bridge jsonEncode to_double options w) = w2"
    using nd rs by (cases "truthy newDevice") (simp_all add: play_def Let_def split: sum.splits)
  with w1 w2 show ?thesis by simp
qed

lemma play_scripts:
  assumes "fst (isNewDevice bridge w) = Inr newDevice"
  shows "map fst (calls (snd (play bridge jsonEncode to_double options w))) =
           map fst (calls w) @ [probe_script, play_script jsonEncode (truthy newDevice) options]"
  by (simp add: play_calls [OF assms])

text \<open>\<open>includes\<close> finds the text where it occurs, also in a lowered string.\<close>

lemma str_includes_iff: "str_includes s pat \<longleftrightarrow> (\<exists>ps ss. s = ps @ pat @ ss)"
proof (induction s)
  case Nil
  then show ?case by auto
next
  case (Cons c cs)
  show ?case
  proof
    assume "str_includes (c # cs) pat"
    then consider "prefix pat (c # cs)" | "str_includes cs pat" by auto
    then show "\<exists>ps ss. c # cs = ps @ pat @ ss"
    proof cases
      case 1
      then obtain ss where "c # cs = pat @ ss" by (auto simp: prefix_def)
      then have "c # cs = [] @ pat @ ss" by simp
      then show ?thesis by blast
    next
      case 2
      with Cons.IH obtain ps ss where "cs = ps @ pat @ ss" by blast
      then have "c # cs = (c # ps) @ pat @ ss" by simp
      then show ?thesis by blast
    qed
  next
    assume "\<exists>ps ss. c # cs = ps @ pat @ ss"
    then obtain ps ss where eq: "c # cs = ps @ pat @ ss" by blast
    show "str_includes (c # cs) pat"
    proof (cases ps)
      case Nil
      with eq have "prefix pat (c # cs)" by (simp add: prefix_def)
      then show ?thesis by simp
    next
      case (Cons p ps')
      with eq have "cs = ps' @ pat @ ss" by simp
      with Cons.IH have "str_includes cs pat" by blast
      then show ?thesis by simp
    qed
  qed
qed

lemma includes_lowered_iff:
  "str_includes (toLowerCase s) pat \<longleftrightarrow> (\<exists>ps u ss. s = ps @ u @ ss \<and> toLowerCase u = pat)"
proof
  assume "str_includes (toLowerCase s) pat"
  then obtain ps' ss' where "map lower_unit s = ps' @ pat @ ss'"
    by (auto simp: str_includes_iff toLowerCase_def)
  then obtain ps r where s: "s = ps @ r" and "map lower_unit r = pat @ ss'"
    by (metis map_eq_append_conv)
  then obtain u ss where "r = u @ ss" and "map lower_unit u = pat"
    by (metis map_eq_append_conv)
  with s have "s = ps @ u @ ss \<and> toLowerCase u = pat" by (simp add: toLowerCase_def)
  then show "\<exists>ps u ss. s = ps @ u @ ss \<and> toLowerCase u = pat" by blast
next
  assume "\<exists>ps u ss. s = ps @ u @ ss \<and> toLowerCase u = pat"
  then obtain ps u ss where "s = ps @ u @ ss" and "toLowerCase u = pat" by blast
  then have "toLowerCase s = toLowerCase ps @ pat @ toLowerCase ss"
    by (simp add: toLowerCase_def)
  then show "str_includes (toLowerCase s) pat"
    unfolding str_includes_iff by blast
qed

text \<open>A playback event sets the status from its data.\<close>

lemma onEvent_playing:
  assumes "JSON_parse event = Inr e" and "prop_of e (js ''event'') = JStr (js ''playing'')"
  shows "onEvent jsonDecode uuid now event w =
           Inr (w\<lparr>status :=
                  if prop_of e (js ''data'') = JStr (js ''Playing'') then Playing
                  else if prop_of e (js ''data'') = JStr (js ''Paused'') then Paused
                  else Idle\<rparr>)"
proof -
  from assms(2) have "\<not> nullish e"
    by (intro prop_of_defined [of e "js ''event''"]) simp
  with assms show ?thesis
    by (simp add: onEvent_def get_prop_def Let_def)
qed

text \<open>When \<open>onEvent\<close> returns, and what it leaves of the state when the event is not recognised.\<close>

lemma onEvent_returns:
  assumes parse: "JSON_parse event = Inr e" and e: "\<not> nullish e"
    and data: "prop_of e (js ''event'') = JStr (js ''instruction'') \<longrightarrow>
               \<not> nullish (prop_of e (js ''data''))"
    and decoder: "prop_of e (js ''event'') = JStr (js ''instruction'') \<longrightarrow>
                  truthy (prop_of (prop_of e (js ''data'')) (js ''NewLine'')) \<longrightarrow>
                  (\<exists>line. jsonDecode (prop_of (prop_of e (js ''data'')) (js ''NewLine'')) = Inr line)"
  shows "\<exists>w'. onEvent jsonDecode uuid now event w = Inr w'"
proof -
  let ?kind = "prop_of e (js ''event'')"
  let ?newLine = "prop_of (prop_of e (js ''data'')) (js ''NewLine'')"
  have kinds: "JStr (js ''instruction'') \<noteq> JStr (js ''playing'')"
    "JStr (js ''instruction'') \<noteq> JStr (js ''kws'')"
    by (simp_all add: js_def)
  show ?thesis
  proof (cases "?kind = JStr (js ''instruction'')")
    case False
    with parse e show ?thesis
      by (simp add: onEvent_def get_prop_def Let_def)
  next
    case True
    with data have d: "\<not> nullish (prop_of e (js ''data''))" by simp
    show ?thesis
    proof (cases "truthy ?newLine")
      case False
      with True parse e d kinds show ?thesis
        by (simp add: onEvent_def get_prop_def)
    next
      case truthy: True
      with True decoder obtain line where "jsonDecode ?newLine = Inr line" by blast
      with truthy True parse e d kinds show ?thesis
        by (simp add: onEvent_def get_prop_def)
    qed
  qed
qed

lemma onEvent_unrecognized:
  assumes parse: "JSON_parse event = Inr e"
    and playing: "prop_of e (js ''event'') \<noteq> JStr (js ''playing'')"
    and kws: "prop_of e (js ''event'') \<noteq> JStr (js ''kws'')"
    and other: "\<not> (prop_of e (js ''event'') = JStr (js ''instruction'')
                   \<and> truthy (prop_of (prop_of e (js ''data'')) (js ''NewLine''))
                   \<and> (\<exists>line. jsonDecode (prop_of (prop_of e (js ''data'')) (js ''NewLine'')) =
                                 Inr line
                               \<and> is_final_result line))"
  shows "state_after (onEvent jsonDecode uuid now event w) w = w"
proof -
  let ?kind = "prop_of e (js ''event'')"
  let ?newLine = "prop_of (prop_of e (js ''data'')) (js ''NewLine'')"
  have kinds: "JStr (js ''instruction'') \<noteq> JStr (js ''playing'')"
    "JStr (js ''instruction'') \<noteq> JStr (js ''kws'')"
    by (simp_all add: js_def)
  show ?thesis
  proof (cases "nullish e")
    case True
    with parse show ?thesis
      by (simp add: onEvent_def get_prop_def state_after_def)
  next
    case e: False
    show ?thesis
    proof (cases "?kind = JStr (js ''instruction'')")
      case False
      with parse e playing kws show ?thesis
        by (simp add: onEvent_def get_prop_def state_after_def)
    next
      case instruction: True
      show ?thesis
      proof (cases "nullish (prop_of e (js ''data''))")
        case True
        with instruction parse e kinds show ?thesis
          by (simp add: onEvent_def get_prop_def state_after_def)
      next
        case d: False
        show ?thesis
        proof (cases "truthy ?newLine")
          case False
          with instruction parse e d kinds show ?thesis
            by (simp add: onEvent_def get_prop_def state_after_def)
        next
          case truthy: True
          show ?thesis
          proof (cases "jsonDecode ?newLine")
            case (Inl err')
            with truthy instruction parse e d kinds show ?thesis
              by (simp add: onEvent_def get_prop_def state_after_def)
          next
            case (Inr line)
            with other instruction truthy have "\<not> is_final_result line" by blast
            with Inr truthy instruction parse e d kinds show ?thesis
              by (simp add: onEvent_def get_prop_def state_after_def)
          qed
        qed
      qed
    qed
  qed
qed

section \<open>The sanitizer on the inputs of the specification\<close>

lemmas sanitizer_defs =
  removeThinkingTags_def removeThinkingTags_engine_def re_tag_def re_block_def
  re_block_nl_def nl_then_rest_def nl_close_at_def think_open_def think_close_def js_def

lemma speaker_copy_reforms_tag: "removeThinkingTags (js ''<thi<think>nk>'') = js ''<think>''"
  by (simp add: sanitizer_defs)

lemma engine_copy_reforms_tag:
  "removeThinkingTags_engine (js ''<thi<think>nk>'') = js ''<think>''"
  by (simp add: sanitizer_defs)

lemma speaker_copy_lone_tag: "removeThinkingTags (js ''<think>'') = []"
  by (simp add: sanitizer_defs)

lemma engine_copy_lone_tag: "removeThinkingTags_engine (js ''<think>'') = []"
  by (simp add: sanitizer_defs)

text \<open>
  C3. The specification has the sanitizer remove the paired delimiters together with
  what stands between them, so that \<open>a<think>b</think>c\<close> becomes \<open>ac\<close>. Both copies
  remove the single tags before they look for blocks, so no block is left to find and
  the enclosed \<open>b\<close> stays: the result is \<open>abc\<close>.
\<close>

theorem removeThinkingTags_keeps_enclosed_text:
  "removeThinkingTags (js ''a<think>b</think>c'') = js ''abc''
   \<and> removeThinkingTags_engine (js ''a<think>b</think>c'') = js ''abc''
   \<and> js ''abc'' \<noteq> js ''ac''"
  by (simp add: removeThinkingTags_def removeThinkingTags_engine_def re_tag_def re_block_def
      re_block_nl_def think_open_def think_close_def js_def)

text \<open>
  C8. The specification has the output of the sanitizer free of both delimiters. The
  single tags are removed in one pass from the left, and the units on both sides of a
  removed tag can form a new one: from \<open><thi<think>nk>\<close> the inner tag is removed and
  the opening tag \<open><think>\<close> is what remains, in both copies, since no closing tag
  follows it.
\<close>

theorem removeThinkingTags_leaves_delimiter:
  "removeThinkingTags (js ''<thi<think>nk>'') = js ''<think>''
   \<and> removeThinkingTags_engine (js ''<thi<think>nk>'') = js ''<think>''
   \<and> str_includes (removeThinkingTags (js ''<thi<think>nk>'')) (js ''<think>'')
   \<and> str_includes (removeThinkingTags_engine (js ''<thi<think>nk>'')) (js ''<think>'')"
  unfolding speaker_copy_reforms_tag engine_copy_reforms_tag
  by (simp add: js_def)

text \<open>
  C9. The specification has the sanitizer idempotent. On \<open><thi<think>nk>\<close> the first
  application yields \<open><think>\<close> and the second one the empty string, in both copies.
\<close>

theorem removeThinkingTags_not_idempotent:
  "removeThinkingTags (removeThinkingTags (js ''<thi<think>nk>'')) = []
   \<and> removeThinkingTags (js ''<thi<think>nk>'') \<noteq> []
   \<and> removeThinkingTags_engine (removeThinkingTags_engine (js ''<thi<think>nk>'')) = []
   \<and> removeThinkingTags_engine (js ''<thi<think>nk>'') \<noteq> []"
  unfolding speaker_copy_reforms_tag engine_copy_reforms_tag
    speaker_copy_lone_tag engine_copy_lone_tag
  by (simp add: js_def)

section \<open>The bridge client\<close>

text \<open>
  C1. \<open>runShell\<close> never throws: for every bridge, script and timeout it returns a value.
  The value is \<open>undefined\<close> when the promise of the bridge is rejected (a rejection is how
  a failure or a timeout of the bridge reaches the program), when it resolves to nothing
  or to the empty string, and when the text it resolves to is not JSON; it is the parsed
  value when the text is JSON. So a value other than \<open>undefined\<close>, such as a result with
  \<open>stdout\<close>, \<open>stderr\<close> and \<open>exit_code\<close>, is returned only when the bridge has resolved
  to a JSON text of that value.
\<close>

theorem runShell_resolves:
  "fst (runShell bridge script options w) =
     Inr (case bridge (calls w) script (case options of None \<Rightarrow> 10 * 1000 | Some t \<Rightarrow> t) of
            Rejects \<Rightarrow> JUndefined
          | Resolves None \<Rightarrow> JUndefined
          | Resolves (Some r) \<Rightarrow>
              if r = [] then JUndefined
              else (case JSON_parse r of Inl err \<Rightarrow> JUndefined | Inr v \<Rightarrow> v))
   \<and> (fst (runShell bridge script options w) = Inr v \<longrightarrow> v \<noteq> JUndefined \<longrightarrow>
       (\<exists>r. bridge (calls w) script (case options of None \<Rightarrow> 10 * 1000 | Some t \<Rightarrow> t) =
              Resolves (Some r)
            \<and> JSON_parse r = Inr v))"
  by (auto simp: runShell_def try_catch_def await_def Let_def
      split: bridge_reply.splits option.splits sum.splits if_splits)

theorem runShell_resolves_witness:
  "fst (runShell (bridge_replying reply_hi) (js ''echo hi'') None world0) = Inr result_hi
   \<and> result_hi \<noteq> JUndefined
   \<and> (\<exists>r. bridge_replying reply_hi (calls world0) (js ''echo hi'') (10 * 1000) = Resolves (Some r)
          \<and> JSON_parse r = Inr result_hi)
   \<and> fst (runShell (bridge_replying reply_broken) (js ''echo hi'') None world0) = Inr JUndefined
   \<and> fst (runShell bridge_rejecting (js ''echo hi'') None world0) = Inr JUndefined
   \<and> fst (runShell bridge_silent (js ''echo hi'') None world0) = Inr JUndefined"
proof -
  have ne: "reply_hi \<noteq> []" "reply_broken \<noteq> []"
    by (simp_all add: reply_hi_def reply_broken_def js_def)
  have hi: "fst (runShell (bridge_replying reply_hi) (js ''echo hi'') None world0) = Inr result_hi"
    using runShell_resolves [of "bridge_replying reply_hi" "js ''echo hi''" None world0] ne
    by (simp add: bridge_replying_def parse_reply_hi)
  have val: "result_hi \<noteq> JUndefined"
    by (simp add: result_hi_def)
  from runShell_resolves [of "bridge_replying reply_hi" "js ''echo hi''" None world0 result_hi]
    hi val
  have only: "\<exists>r. bridge_replying reply_hi (calls world0) (js ''echo hi'') (10 * 1000) =
                    Resolves (Some r) \<and> JSON_parse r = Inr result_hi"
    by simp
  have broken:
    "fst (runShell (bridge_replying reply_broken) (js ''echo hi'') None world0) = Inr JUndefined"
    using runShell_resolves [of "bridge_replying reply_broken" "js ''echo hi''" None world0] ne
    by (simp add: bridge_replying_def parse_reply_broken)
  have rejecting: "fst (runShell bridge_rejecting (js ''echo hi'') None world0) = Inr JUndefined"
    using runShell_resolves [of bridge_rejecting "js ''echo hi''" None world0]
    by (simp add: bridge_rejecting_def)
  have silent: "fst (runShell bridge_silent (js ''echo hi'') None world0) = Inr JUndefined"
    using runShell_resolves [of bridge_silent "js ''echo hi''" None world0]
    by (simp add: bridge_silent_def)
  from hi val only broken rejecting silent show ?thesis by blast
qed

section \<open>Event ingestion\<close>

text \<open>
  C2. The specification has \<open>onEvent\<close> complete without throwing on every string, a
  text that is not JSON and an instruction event without its data among them. \<open>onEvent\<close>
  parses the event with \<open>JSON.parse\<close> outside of any \<open>try\<close>, and a text that is not JSON
  throws a \<open>SyntaxError\<close>; it reads \<open>e.data.NewLine\<close> of an instruction event, which throws
  a \<open>TypeError\<close> where the event has no data.
\<close>

theorem onEvent_throws:
  "onEvent jsonDecode_parse [] 0 event_not_json world0 = Inl SyntaxError
   \<and> onEvent jsonDecode_parse [] 0 event_no_data world0 = Inl TypeError"
  by (simp add: onEvent_def parse_event_no_data parse_not_json get_prop_def prop_of_def
      nullish_def js_def)

text \<open>
  C2, as the program has it. An event that is the JSON text of a value other than \<open>null\<close>
  and that, where it is an instruction event, has its data and, where its \<open>NewLine\<close> is
  truthy, a \<open>NewLine\<close> on which the decoder returns, is handled without throwing; a text
  that is not JSON throws the \<open>SyntaxError\<close> of \<open>JSON.parse\<close>. For every event text and
  every decoder, an event that is none of the recognised ones, that is no playback
  event, no keyword event and no instruction event with a truthy \<open>NewLine\<close> that is decoded
  to a final result with a text, leaves the state as it is, whether \<open>onEvent\<close> returns or
  throws: the status is kept, nothing is handed to the message handler and nothing is
  written to the console.
\<close>

theorem onEvent_ignores_unrecognized:
  "(JSON_parse event = Inl err \<longrightarrow>
      onEvent jsonDecode uuid now event w = Inl err
      \<and> state_after (onEvent jsonDecode uuid now event w) w = w)
   \<and> (JSON_parse event = Inr e \<longrightarrow>
       (\<not> nullish e \<longrightarrow>
        (prop_of e (js ''event'') = JStr (js ''instruction'') \<longrightarrow>
           \<not> nullish (prop_of e (js ''data''))) \<longrightarrow>
        (prop_of e (js ''event'') = JStr (js ''instruction'') \<longrightarrow>
           truthy (prop_of (prop_of e (js ''data'')) (js ''NewLine'')) \<longrightarrow>
           (\<exists>line. jsonDecode (prop_of (prop_of e (js ''data'')) (js ''NewLine'')) = Inr line)) \<longrightarrow>
        (\<exists>w'. onEvent jsonDecode uuid now event w = Inr w'))
       \<and> (prop_of e (js ''event'') \<noteq> JStr (js ''playing'') \<longrightarrow>
          prop_of e (js ''event'') \<noteq> JStr (js ''kws'') \<longrightarrow>
          \<not> (prop_of e (js ''event'') = JStr (js ''instruction'')
             \<and> truthy (prop_of (prop_of e (js ''data'')) (js ''NewLine''))
             \<and> (\<exists>line. jsonDecode (prop_of (prop_of e (js ''data'')) (js ''NewLine'')) = Inr line
                       \<and> is_final_result line)) \<longrightarrow>
          state_after (onEvent jsonDecode uuid now event w) w = w))"
proof (intro conjI impI)
  assume "JSON_parse event = Inl err"
  then show "onEvent jsonDecode uuid now event w = Inl err"
    by (simp add: onEvent_def)
next
  assume "JSON_parse event = Inl err"
  then show "state_after (onEvent jsonDecode uuid now event w) w = w"
    by (simp add: onEvent_def state_after_def)
next
  assume "JSON_parse event = Inr e" and "\<not> nullish e"
    and "prop_of e (js ''event'') = JStr (js ''instruction'') \<longrightarrow>
         \<not> nullish (prop_of e (js ''data''))"
    and "prop_of e (js ''event'') = JStr (js ''instruction'') \<longrightarrow>
         truthy (prop_of (prop_of e (js ''data'')) (js ''NewLine'')) \<longrightarrow>
         (\<exists>line. jsonDecode (prop_of (prop_of e (js ''data'')) (js ''NewLine'')) = Inr line)"
  then show "\<exists>w'. onEvent jsonDecode uuid now event w = Inr w'"
    by (rule onEvent_returns)
next
  assume "JSON_parse event = Inr e"
    and "prop_of e (js ''event'') \<noteq> JStr (js ''playing'')"
    and "prop_of e (js ''event'') \<noteq> JStr (js ''kws'')"
    and "\<not> (prop_of e (js ''event'') = JStr (js ''instruction'')
           \<and> truthy (prop_of (prop_of e (js ''data'')) (js ''NewLine''))
           \<and> (\<exists>line. jsonDecode (prop_of (prop_of e (js ''data'')) (js ''NewLine'')) = Inr line
                     \<and> is_final_result line))"
  then show "state_after (onEvent jsonDecode uuid now event w) w = w"
    by (rule onEvent_unrecognized)
qed

theorem onEvent_ignores_unrecognized_witness:
  "onEvent jsonDecode_strict [] 0 event_volume world0 = Inr world0
   \<and> onEvent jsonDecode_strict [] 0 event_empty_data world0 = Inr world0
   \<and> onEvent jsonDecode_parse [] 0 (event_instruction False) world0 = Inr world0
   \<and> onEvent jsonDecode_parse [] 0 event_not_json world0 = Inl SyntaxError
   \<and> state_after (onEvent jsonDecode_parse [] 0 event_not_json world0) world0 = world0
   \<and> state_after (onEvent jsonDecode_parse [] 0 event_no_data world0) world0 = world0"
proof -
  let ?v = "JObj [(js ''event'', JStr (js ''volume'')), (js ''data'', JNum 5)]"
  let ?i = "JObj [(js ''event'', JStr (js ''instruction'')), (js ''data'', JObj [])]"
  let ?f = "JObj [(js ''event'', JStr (js ''instruction'')),
                  (js ''data'', JObj [(js ''NewLine'', JStr (line_text False))])]"
  let ?n = "JObj [(js ''event'', JStr (js ''instruction''))]"
  have returned: "r = Inr w" if "\<exists>w'. r = Inr w'" and "state_after r w = w"
    for r :: "error + world" and w
    using that by (auto simp: state_after_def)
  have kinds: "prop_of ?v (js ''event'') = JStr (js ''volume'')"
    "prop_of ?i (js ''event'') = JStr (js ''instruction'')"
    "prop_of ?f (js ''event'') = JStr (js ''instruction'')"
    "prop_of ?n (js ''event'') = JStr (js ''instruction'')"
    by (simp_all add: prop_of_def)
  have differ: "JStr (js ''volume'') \<noteq> JStr (js ''playing'')"
    "JStr (js ''volume'') \<noteq> JStr (js ''kws'')"
    "JStr (js ''volume'') \<noteq> JStr (js ''instruction'')"
    "JStr (js ''instruction'') \<noteq> JStr (js ''playing'')"
    "JStr (js ''instruction'') \<noteq> JStr (js ''kws'')"
    by (simp_all add: js_def)
  have data: "prop_of ?v (js ''data'') = JNum 5" "prop_of ?i (js ''data'') = JObj []"
    "prop_of ?f (js ''data'') = JObj [(js ''NewLine'', JStr (line_text False))]"
    "prop_of ?n (js ''data'') = JUndefined"
    by (simp_all add: prop_of_def js_def)
  have newLine: "prop_of (JNum 5) (js ''NewLine'') = JUndefined"
    "prop_of (JObj []) (js ''NewLine'') = JUndefined"
    "prop_of (JObj [(js ''NewLine'', JStr (line_text False))]) (js ''NewLine'') =
       JStr (line_text False)"
    "prop_of JUndefined (js ''NewLine'') = JUndefined"
    by (simp_all add: prop_of_def)
  have present: "\<not> nullish ?v" "\<not> nullish ?i" "\<not> nullish ?f" "\<not> nullish (JObj [])"
    "\<not> nullish (JObj [(js ''NewLine'', JStr (line_text False))])"
    by (simp_all add: nullish_def)
  have falsy: "\<not> truthy JUndefined"
    by (simp add: truthy_def)
  have decoded: "jsonDecode_parse (JStr (line_text False)) = Inr (line_value False)"
    by (simp add: jsonDecode_parse_def parse_line_text try_catch_def)
  have interim: "\<not> is_final_result (line_value False)"
    by (simp add: is_final_result_def line_value_def opt_prop_def prop_of_def nullish_def
        truthy_def js_def)
  note volume = onEvent_ignores_unrecognized
    [of event_volume _ jsonDecode_strict "[]" 0 world0 ?v]
  note empty = onEvent_ignores_unrecognized
    [of event_empty_data _ jsonDecode_strict "[]" 0 world0 ?i]
  note interim_line = onEvent_ignores_unrecognized
    [of "event_instruction False" _ jsonDecode_parse "[]" 0 world0 ?f]
  note not_json = onEvent_ignores_unrecognized
    [of event_not_json SyntaxError jsonDecode_parse "[]" 0 world0]
  note no_data = onEvent_ignores_unrecognized
    [of event_no_data _ jsonDecode_parse "[]" 0 world0 ?n]
  have 1: "onEvent jsonDecode_strict [] 0 event_volume world0 = Inr world0"
    using volume parse_event_volume differ present
    unfolding kinds data newLine by (intro returned) simp_all
  have 2: "onEvent jsonDecode_strict [] 0 event_empty_data world0 = Inr world0"
    using empty parse_event_empty_data differ present falsy
    unfolding kinds data newLine by (intro returned) simp_all
  have 3: "onEvent jsonDecode_parse [] 0 (event_instruction False) world0 = Inr world0"
    using interim_line parse_event_instruction [of False] differ present decoded interim
    unfolding kinds data newLine by (intro returned) simp_all
  from not_json parse_not_json
  have 4: "onEvent jsonDecode_parse [] 0 event_not_json world0 = Inl SyntaxError
           \<and> state_after (onEvent jsonDecode_parse [] 0 event_not_json world0) world0 = world0"
    by blast
  have 5: "state_after (onEvent jsonDecode_parse [] 0 event_no_data world0) world0 = world0"
    using no_data parse_event_no_data differ falsy
    unfolding kinds data newLine by simp
  from 1 2 3 4 5 show ?thesis by blast
qed

text \<open>
  C4. After the event \<open>{"event":"playing","data":"Playing"}\<close> the status is playing and
  after \<open>{"event":"playing","data":"Paused"}\<close> it is paused, whatever it was before. For
  every event text that parses to a value whose \<open>event\<close> is \<open>playing\<close>, the status is set
  from \<open>data\<close> alone: playing for \<open>Playing\<close>, paused for \<open>Paused\<close>, and idle for every
  other value and where there is none.
\<close>

theorem onEvent_playing_status:
  "onEvent jsonDecode uuid now event_playing w = Inr (w\<lparr>status := Playing\<rparr>)
   \<and> onEvent jsonDecode uuid now event_paused w = Inr (w\<lparr>status := Paused\<rparr>)
   \<and> (JSON_parse event = Inr e \<longrightarrow> prop_of e (js ''event'') = JStr (js ''playing'') \<longrightarrow>
       onEvent jsonDecode uuid now event w =
         Inr (w\<lparr>status :=
                if prop_of e (js ''data'') = JStr (js ''Playing'') then Playing
                else if prop_of e (js ''data'') = JStr (js ''Paused'') then Paused
                else Idle\<rparr>))"
proof (intro conjI impI)
  show "onEvent jsonDecode uuid now event_playing w = Inr (w\<lparr>status := Playing\<rparr>)"
    by (subst onEvent_playing [OF parse_event_playing]) (simp_all add: prop_of_def js_def)
  show "onEvent jsonDecode uuid now event_paused w = Inr (w\<lparr>status := Paused\<rparr>)"
    by (subst onEvent_playing [OF parse_event_paused]) (simp_all add: prop_of_def js_def)
  show "onEvent jsonDecode uuid now event w =
          Inr (w\<lparr>status :=
                 if prop_of e (js ''data'') = JStr (js ''Playing'') then Playing
                 else if prop_of e (js ''data'') = JStr (js ''Paused'') then Paused
                 else Idle\<rparr>)"
    if "JSON_parse event = Inr e" and "prop_of e (js ''event'') = JStr (js ''playing'')"
    using that by (rule onEvent_playing)
qed

theorem onEvent_playing_status_witness:
  "onEvent jsonDecode_parse [] 0 event_stopped world_paused = Inr (world_paused\<lparr>status := Idle\<rparr>)
   \<and> onEvent jsonDecode_parse [] 0 event_playing world_paused =
       Inr (world_paused\<lparr>status := Playing\<rparr>)
   \<and> status world_paused = Paused"
proof -
  let ?e = "JObj [(js ''event'', JStr (js ''playing'')), (js ''data'', JStr (js ''Stopped''))]"
  note main = onEvent_playing_status [of jsonDecode_parse "[]" 0 world_paused event_stopped ?e]
  have kind: "prop_of ?e (js ''event'') = JStr (js ''playing'')"
    by (simp add: prop_of_def)
  have data: "prop_of ?e (js ''data'') = JStr (js ''Stopped'')"
    by (simp add: prop_of_def js_def)
  from main parse_event_stopped kind
  have "onEvent jsonDecode_parse [] 0 event_stopped world_paused =
          Inr (world_paused\<lparr>status :=
                 if prop_of ?e (js ''data'') = JStr (js ''Playing'') then Playing
                 else if prop_of ?e (js ''data'') = JStr (js ''Paused'') then Paused
                 else Idle\<rparr>)"
    by blast
  then have stopped:
    "onEvent jsonDecode_parse [] 0 event_stopped world_paused = Inr (world_paused\<lparr>status := Idle\<rparr>)"
    unfolding data by (simp add: js_def)
  from main
  have playing: "onEvent jsonDecode_parse [] 0 event_playing world_paused =
                   Inr (world_paused\<lparr>status := Playing\<rparr>)"
    by blast
  have "status world_paused = Paused"
    by (simp add: world_paused_def)
  with stopped playing show ?thesis by blast
qed

text \<open>
  C5. An instruction event is given whose \<open>NewLine\<close> is decoded (by \<open>jsonDecode\<close>, the
  helper of the engine's package) to a line with the header namespace
  \<open>SpeechRecognizer\<close> and the header name \<open>RecognizeResult\<close>, the flag \<open>is_final\<close> and a
  first result with a text that is not empty. When the flag is true, \<open>onEvent\<close> hands
  exactly one message to the message handler, with that text, the sender \<open>user\<close>, a fresh
  identifier and the time; when it is false, it hands over none and changes nothing.
\<close>

theorem onEvent_forwards_final_result:
  assumes "JSON_parse event = Inr e"
    and "prop_of e (js ''event'') = JStr (js ''instruction'')"
    and "truthy (prop_of (prop_of e (js ''data'')) (js ''NewLine''))"
    and "jsonDecode (prop_of (prop_of e (js ''data'')) (js ''NewLine'')) = Inr line"
    and "prop_of (prop_of line (js ''header'')) (js ''namespace'') = JStr (js ''SpeechRecognizer'')"
    and "prop_of (prop_of line (js ''header'')) (js ''name'') = JStr (js ''RecognizeResult'')"
    and "prop_of (prop_of line (js ''payload'')) (js ''is_final'') = JBool final"
    and "prop_of (prop_of line (js ''payload'')) (js ''results'') = JArr (r # rs)"
    and "prop_of r (js ''text'') = JStr t"
    and "t \<noteq> []"
  shows "onEvent jsonDecode uuid now event w =
           Inr (if final
                then w\<lparr>forwarded := forwarded w @
                        [\<lparr>msg_text = JStr t, msg_id = uuid, msg_sender = js ''user'',
                          msg_timestamp = now\<rparr>]\<rparr>
                else w)"
proof -
  from assms(2) have e: "\<not> nullish e"
    by (intro prop_of_defined [of e "js ''event''"]) simp
  from assms(3) have "prop_of (prop_of e (js ''data'')) (js ''NewLine'') \<noteq> JUndefined"
    by (rule truthy_defined)
  then have d: "\<not> nullish (prop_of e (js ''data''))" by (rule prop_of_defined)
  have kind: "JStr (js ''instruction'') \<noteq> JStr (js ''playing'')"
    by (simp add: js_def)
  have ns: "opt_prop (opt_prop line (js ''header'')) (js ''namespace'') = JStr (js ''SpeechRecognizer'')"
    using assms(5) by (rule opt_prop_via) simp
  have nm: "opt_prop (opt_prop line (js ''header'')) (js ''name'') = JStr (js ''RecognizeResult'')"
    using assms(6) by (rule opt_prop_via) simp
  have fin: "opt_prop (opt_prop line (js ''payload'')) (js ''is_final'') = JBool final"
    using assms(7) by (rule opt_prop_via) simp
  have res: "opt_prop (opt_prop line (js ''payload'')) (js ''results'') = JArr (r # rs)"
    using assms(8) by (rule opt_prop_via) simp
  have tx: "opt_prop r (js ''text'') = JStr t"
    using assms(9) by (rule opt_prop_JStr)
  have cond: "is_final_result line \<longleftrightarrow> final"
    using assms(10) by (simp add: is_final_result_def ns nm fin res tx opt_first_def truthy_def)
  have rt: "result_text line = JStr t"
    by (simp add: result_text_def res tx opt_first_def)
  from assms(1,2,3,4) e d kind cond rt show ?thesis
    by (simp add: onEvent_def get_prop_def)
qed

theorem onEvent_forwards_final_result_witness:
  "onEvent jsonDecode_parse (js ''id-1'') 1700000000000 (event_instruction True) world0 =
     Inr (world0\<lparr>forwarded :=
            [\<lparr>msg_text = JStr (js ''turn on the light''), msg_id = js ''id-1'',
              msg_sender = js ''user'', msg_timestamp = 1700000000000\<rparr>]\<rparr>)
   \<and> onEvent jsonDecode_parse (js ''id-1'') 1700000000000 (event_instruction False) world0 =
     Inr world0"
proof -
  define e where "e final = JObj [(js ''event'', JStr (js ''instruction'')),
                (js ''data'', JObj [(js ''NewLine'', JStr (line_text final))])]" for final
  define r where "r = JObj [(js ''text'', JStr (js ''turn on the light''))]"
  have 1: "JSON_parse (event_instruction final) = Inr (e final)" for final
    unfolding e_def by (rule parse_event_instruction)
  have 2: "prop_of (e final) (js ''event'') = JStr (js ''instruction'')" for final
    by (simp add: e_def prop_of_def)
  have nl: "prop_of (prop_of (e final) (js ''data'')) (js ''NewLine'') = JStr (line_text final)"
    for final
    by (simp add: e_def prop_of_def js_def)
  have 3: "truthy (prop_of (prop_of (e final) (js ''data'')) (js ''NewLine''))" for final
    unfolding nl by (simp add: truthy_def line_text_def js_def)
  have 4: "jsonDecode_parse (prop_of (prop_of (e final) (js ''data'')) (js ''NewLine'')) =
             Inr (line_value final)" for final
    unfolding nl by (simp add: jsonDecode_parse_def parse_line_text try_catch_def)
  have 5: "prop_of (prop_of (line_value final) (js ''header'')) (js ''namespace'') =
             JStr (js ''SpeechRecognizer'')" for final
    by (simp add: line_value_def prop_of_def js_def)
  have 6: "prop_of (prop_of (line_value final) (js ''header'')) (js ''name'') =
             JStr (js ''RecognizeResult'')" for final
    by (simp add: line_value_def prop_of_def js_def)
  have 7: "prop_of (prop_of (line_value final) (js ''payload'')) (js ''is_final'') =
             JBool final" for final
    by (simp add: line_value_def prop_of_def js_def)
  have 8: "prop_of (prop_of (line_value final) (js ''payload'')) (js ''results'') =
             JArr (r # [])" for final
    by (simp add: line_value_def prop_of_def js_def r_def)
  have 9: "prop_of r (js ''text'') = JStr (js ''turn on the light'')"
    by (simp add: r_def prop_of_def)
  have 10: "js ''turn on the light'' \<noteq> []"
    by (simp add: js_def)
  have main: "onEvent jsonDecode_parse (js ''id-1'') 1700000000000 (event_instruction final) world0 =
      Inr (if final
           then world0\<lparr>forwarded := forwarded world0 @
                  [\<lparr>msg_text = JStr (js ''turn on the light''), msg_id = js ''id-1'',
                    msg_sender = js ''user'', msg_timestamp = 1700000000000\<rparr>]\<rparr>
           else world0)" for final
    by (rule onEvent_forwards_final_result) (rule 1 2 3 4 5 6 7 8 9 10)+
  from main [of True] main [of False] show ?thesis
    by (simp add: world0_def)
qed

section \<open>The device probe and the playback controller\<close>

text \<open>
  C6. The specification has \<open>isNewDevice\<close> resolve to false when the probe has no
  result. It resolves to \<open>undefined\<close> there, which is not \<open>false\<close>: the chain
  \<open>res?.stdout?.toLowerCase()?.includes("amlogic")\<close> has no default.
\<close>

theorem isNewDevice_absent_is_undefined:
  "fst (isNewDevice bridge_silent world0) = Inr JUndefined
   \<and> fst (isNewDevice bridge_silent world0) \<noteq> Inr (JBool False)"
  by (simp add: fst_isNewDevice [OF runShell_bridge_silent] opt_prop_def nullish_def)

text \<open>
  C6, as the program has it. When the result of the probe has a string as \<open>stdout\<close>,
  \<open>isNewDevice\<close> resolves to true exactly when a part of that string is \<open>amlogic\<close> up to
  the case of its letters, and to false otherwise. When the probe has no result,
  \<open>isNewDevice\<close> resolves to \<open>undefined\<close>, which is falsy, and the command that \<open>play\<close>
  hands to the bridge behind the probe is the one of the old dialect.
\<close>

theorem isNewDevice_classifies:
  "(fst (runShell bridge probe_script None w) = Inr res \<longrightarrow>
    opt_prop res (js ''stdout'') = JStr s \<longrightarrow>
    fst (isNewDevice bridge w) =
      Inr (JBool (\<exists>ps u ss. s = ps @ u @ ss \<and> toLowerCase u = js ''amlogic'')))
   \<and> (fst (runShell bridge probe_script None w) = Inr JUndefined \<longrightarrow>
      fst (isNewDevice bridge w) = Inr JUndefined
      \<and> \<not> truthy JUndefined
      \<and> map fst (calls (snd (play bridge jsonEncode to_double options w))) =
          map fst (calls w) @ [probe_script, play_script jsonEncode False options])"
proof (intro conjI impI)
  assume "fst (runShell bridge probe_script None w) = Inr res"
    and "opt_prop res (js ''stdout'') = JStr s"
  then show "fst (isNewDevice bridge w) =
      Inr (JBool (\<exists>ps u ss. s = ps @ u @ ss \<and> toLowerCase u = js ''amlogic''))"
    by (simp add: fst_isNewDevice nullish_def includes_lowered_iff)
next
  assume absent: "fst (runShell bridge probe_script None w) = Inr JUndefined"
  then show undef: "fst (isNewDevice bridge w) = Inr JUndefined"
    by (simp add: fst_isNewDevice opt_prop_def nullish_def)
  show falsy: "\<not> truthy JUndefined" by (simp add: truthy_def)
  from play_scripts [OF undef, of jsonEncode to_double options] falsy
  show "map fst (calls (snd (play bridge jsonEncode to_double options w))) =
          map fst (calls w) @ [probe_script, play_script jsonEncode False options]"
    by simp
qed

theorem isNewDevice_classifies_witness:
  "fst (isNewDevice (bridge_replying reply_amlogic) world0) = Inr (JBool True)
   \<and> fst (isNewDevice bridge_silent world0) = Inr JUndefined
   \<and> map fst (calls (snd (play bridge_silent encode_flat no_rounding options_thinking world0))) =
       [probe_script,
        js ''ubus call mibrain text_to_speech '' @ quote @ greeting_payload @ quote]"
proof -
  let ?res = "JObj [(js ''stdout'', JStr (js ''Amlogic'')), (js ''stderr'', JStr []),
                    (js ''exit_code'', JNum 0)]"
  have 1: "fst (runShell (bridge_replying reply_amlogic) probe_script None world0) = Inr ?res"
    by (rule runShell_bridge_replying [OF _ parse_reply_amlogic])
       (simp add: reply_amlogic_def js_def)
  have 2: "opt_prop ?res (js ''stdout'') = JStr (js ''Amlogic'')"
    by (simp add: opt_prop_def prop_of_def nullish_def)
  have 3: "\<exists>ps u ss. js ''Amlogic'' = ps @ u @ ss \<and> toLowerCase u = js ''amlogic''"
  proof (intro exI conjI)
    show "js ''Amlogic'' = [] @ js ''Amlogic'' @ []" by simp
    show "toLowerCase (js ''Amlogic'') = js ''amlogic''"
      by (simp add: toLowerCase_def lower_unit_def js_def)
  qed
  have 4: "fst (runShell bridge_silent probe_script None world0) = Inr JUndefined"
    by (rule runShell_bridge_silent)
  have 5: "play_script encode_flat False options_thinking =
             js ''ubus call mibrain text_to_speech '' @ quote @ greeting_payload @ quote"
    by (simp add: play_script_def options_thinking_def nonempty_def removeThinkingTags_def
        re_tag_def re_block_def think_open_def think_close_def encode_flat_def encode_member_def
        encode_scalar_def json_quoted_def greeting_payload_def greeting_def js_def)
  from isNewDevice_classifies [of "bridge_replying reply_amlogic" world0 ?res "js ''Amlogic''"]
    1 2 3
  have "fst (isNewDevice (bridge_replying reply_amlogic) world0) = Inr (JBool True)"
    by simp
  moreover
  from isNewDevice_classifies [of bridge_silent world0 _ _ encode_flat no_rounding
      options_thinking] 4
  have "fst (isNewDevice bridge_silent world0) = Inr JUndefined
        \<and> map fst (calls (snd (play bridge_silent encode_flat no_rounding options_thinking
                                  world0))) =
           map fst (calls world0) @ [probe_script, play_script encode_flat False options_thinking]"
    by blast
  ultimately show ?thesis
    by (simp add: 5 world0_def)
qed

text \<open>
  C7. The specification has \<open>getDevice\<close> return \<open>unknown\<close> for both the model and the
  serial number on an empty \<open>stdout\<close>. Splitting the empty string gives one piece, the
  empty string, and \<open>??\<close> keeps it, being neither \<open>undefined\<close> nor \<open>null\<close>: the model is the
  empty string, and only the serial number is \<open>unknown\<close>. On \<open>model123 SN456\<close> the two
  tokens are returned.
\<close>

theorem getDevice_empty_stdout:
  "fst (getDevice (bridge_replying reply_empty) w) = Inr \<lparr>model = [], sn = js ''unknown''\<rparr>
   \<and> fst (getDevice (bridge_replying reply_model) w) =
       Inr \<lparr>model = js ''model123'', sn = js ''SN456''\<rparr>"
proof
  have "fst (runShell (bridge_replying reply_empty) script None w) =
          Inr (JObj [(js ''stdout'', JStr []), (js ''stderr'', JStr []),
                     (js ''exit_code'', JNum 0)])" for script
    by (rule runShell_bridge_replying [OF _ parse_reply_empty]) (simp add: reply_empty_def js_def)
  then show "fst (getDevice (bridge_replying reply_empty) w) =
               Inr \<lparr>model = [], sn = js ''unknown''\<rparr>"
    by (simp add: getDevice_def split_beta nullish_def prop_of_def trim_def elem_or_def
        split: sum.splits prod.splits)
  have "fst (runShell (bridge_replying reply_model) script None w) =
          Inr (JObj [(js ''stdout'', JStr (js ''model123 SN456'')), (js ''stderr'', JStr []),
                     (js ''exit_code'', JNum 0)])" for script
    by (rule runShell_bridge_replying [OF _ parse_reply_model]) (simp add: reply_model_def js_def)
  then show "fst (getDevice (bridge_replying reply_model) w) =
               Inr \<lparr>model = js ''model123'', sn = js ''SN456''\<rparr>"
    by (simp add: getDevice_def split_beta nullish_def prop_of_def trim_def elem_or_def
        is_space_def js_def split: sum.splits prod.splits)
qed



end
